theory Spec2Isabelle
  imports Main
begin

section \<open>The greeting workflow definition\<close>

text \<open>
  The source is one Python module, \<^verbatim>\<open>greeting_dag.py\<close>: two functions without
  arguments, and a module body that builds a workflow object, two task objects and one
  ordering edge through the constructors of an orchestration framework.
\<close>

subsection \<open>The two callables\<close>

text \<open>
  \<^verbatim>\<open>
  def hello():
      return 'Hello world!'

  def goodbye():
      return 'goodbye everyone'
  \<close>
  A Python function runs in a world it could read and change (module globals, output
  channels, the objects of the framework). The world is passed in and returned, so that
  a function that leaves it alone says so in its definition. Neither body reads or writes
  anything: the world comes back as it went in.
\<close>

type_synonym 'w callable = "'w \<Rightarrow> string \<times> 'w"

definition hello :: "'w callable" where
  "hello w = (''Hello world!'', w)"

definition goodbye :: "'w callable" where
  "goodbye w = (''goodbye everyone'', w)"

subsection \<open>The objects of the framework\<close>

text \<open>A point in time, as \<^verbatim>\<open>datetime.now()\<close> reads it: microseconds on the wall clock.\<close>

type_synonym datetime = int

text \<open>
  Modelled from the spec: the task object of the orchestration framework, which is
  imported by the module and is not part of the repository. A task is identified by a
  name within its workflow, wraps exactly one callable without arguments and belongs to
  exactly one workflow; the owning workflow is referred to by its name.
\<close>

record 'w PythonOperator =
  task_id :: string
  python_callable :: "'w callable"
  dag :: string

text \<open>
  Modelled from the spec: the workflow object of the framework. A workflow definition is
  identified by a name, carries a start timestamp and owns its tasks; an ordering edge
  \<open>(u, d)\<close> is the directed relation "\<open>d\<close> runs after \<open>u\<close>" between two tasks of the
  workflow. Tasks are kept in the order of their construction.
\<close>

record 'w DAG =
  dag_id :: string
  start_date :: datetime
  tasks :: "'w PythonOperator list"
  edges :: "(string \<times> string) list"

text \<open>
  Modelled from the spec: the calls that the registration surface of the framework can
  receive: the workflow constructor with a name and a start time, the task constructor
  with a name, a callable and the owning workflow, and the ordering operator \<^verbatim>\<open>>>\<close>
  with the upstream and the downstream task.
\<close>

datatype 'w call =
  Call_DAG string datetime
| Call_PythonOperator string "'w callable" string
| Call_rshift string string

text \<open>
  The objects that a load of the definition has built so far, and the calls the
  framework has received, oldest first.
\<close>

record 'w objects =
  workflows :: "'w DAG list"
  calls :: "'w call list"

definition no_objects :: "'w objects" where
  "no_objects = \<lparr>workflows = [], calls = []\<rparr>"

text \<open>
  Modelled from the spec: what the framework raises at load time. The spec names a
  duplicate task name as a failure, and says that unique task names and an acyclic
  ordering graph are enforced by the framework; an edge relates two tasks of the same
  workflow.
\<close>

datatype framework_error =
  UnknownWorkflow string
| DuplicateTask string
| UnknownTask string
| OtherWorkflow string string
| Cycle string string

definition find_dag :: "string \<Rightarrow> 'w objects \<Rightarrow> 'w DAG option" where
  "find_dag name s = find (\<lambda>g. dag_id g = name) (workflows s)"

definition update_dag :: "string \<Rightarrow> ('w DAG \<Rightarrow> 'w DAG) \<Rightarrow> 'w objects \<Rightarrow> 'w objects" where
  "update_dag name f s =
     s\<lparr>workflows := map (\<lambda>g. if dag_id g = name then f g else g) (workflows s)\<rparr>"

definition record_call :: "'w call \<Rightarrow> 'w objects \<Rightarrow> 'w objects" where
  "record_call c s = s\<lparr>calls := calls s @ [c]\<rparr>"

text \<open>
  Modelled from the spec: the workflow constructor, \<^verbatim>\<open>DAG(dag_id=..., start_date=...)\<close>.
  It builds a workflow with the given name and start time, without tasks or edges, and
  returns the reference to it.
\<close>

definition new_DAG :: "string \<Rightarrow> datetime \<Rightarrow> 'w objects \<Rightarrow> framework_error + (string \<times> 'w objects)" where
  "new_DAG name start s =
     (let s1 = record_call (Call_DAG name start) s in
      Inr (name, s1\<lparr>workflows := workflows s1 @
             [\<lparr>dag_id = name, start_date = start, tasks = [], edges = []\<rparr>]\<rparr>))"

text \<open>
  Modelled from the spec: the task constructor,
  \<^verbatim>\<open>PythonOperator(task_id=..., python_callable=..., dag=...)\<close>. It builds the task and
  adds it to the owning workflow; a name already used in that workflow is refused.
\<close>

definition new_PythonOperator ::
  "string \<Rightarrow> 'w callable \<Rightarrow> string \<Rightarrow> 'w objects \<Rightarrow>
     framework_error + ('w PythonOperator \<times> 'w objects)" where
  "new_PythonOperator name f owner s =
     (let s1 = record_call (Call_PythonOperator name f owner) s in
      case find_dag owner s1 of
        None \<Rightarrow> Inl (UnknownWorkflow owner)
      | Some g \<Rightarrow>
          if name \<in> set (map task_id (tasks g)) then Inl (DuplicateTask name)
          else
            let t = \<lparr>task_id = name, python_callable = f, dag = owner\<rparr> in
            Inr (t, update_dag owner (\<lambda>g. g\<lparr>tasks := tasks g @ [t]\<rparr>) s1))"

text \<open>
  Modelled from the spec: the ordering operator, \<^verbatim>\<open>up >> down\<close>: "\<open>down\<close> runs after
  \<open>up\<close>". Both tasks belong to the same workflow, and an edge that would close a cycle
  is refused.
\<close>

definition rshift ::
  "'w PythonOperator \<Rightarrow> 'w PythonOperator \<Rightarrow> 'w objects \<Rightarrow> framework_error + 'w objects" where
  "rshift up down s =
     (let s1 = record_call (Call_rshift (task_id up) (task_id down)) s in
      if dag up \<noteq> dag down then Inl (OtherWorkflow (task_id up) (task_id down))
      else case find_dag (dag up) s1 of
        None \<Rightarrow> Inl (UnknownWorkflow (dag up))
      | Some g \<Rightarrow>
          if task_id up \<notin> set (map task_id (tasks g)) then Inl (UnknownTask (task_id up))
          else if task_id down \<notin> set (map task_id (tasks g)) then Inl (UnknownTask (task_id down))
          else if task_id up = task_id down \<or> (task_id down, task_id up) \<in> (set (edges g))\<^sup>+
            then Inl (Cycle (task_id up) (task_id down))
          else Inr (update_dag (dag up)
                 (\<lambda>g. g\<lparr>edges := edges g @ [(task_id up, task_id down)]\<rparr>) s1))"

subsection \<open>The module body\<close>

text \<open>
  \<^verbatim>\<open>
  greeting_dag = DAG(dag_id = 'greeting_dag', start_date=datetime.now())

  goodbye_task = PythonOperator(task_id='goodbye_task',
                              python_callable=goodbye,
                              dag=greeting_dag)

  hello_task = PythonOperator(task_id='hello_task',
                              python_callable=hello,
                              dag=greeting_dag)

  hello_task >> goodbye_task
  \<close>
  Loading the module runs these four statements in order, from no objects. The reading
  of the wall clock, \<^verbatim>\<open>datetime.now()\<close>, is the argument \<open>now\<close>. An exception of the
  framework ends the load.
\<close>

definition load :: "datetime \<Rightarrow> framework_error + 'w objects" where
  "load now =
     (case new_DAG ''greeting_dag'' now no_objects of
        Inl e \<Rightarrow> Inl e
      | Inr (greeting_dag, s1) \<Rightarrow>
     (case new_PythonOperator ''goodbye_task'' goodbye greeting_dag s1 of
        Inl e \<Rightarrow> Inl e
      | Inr (goodbye_task, s2) \<Rightarrow>
     (case new_PythonOperator ''hello_task'' hello greeting_dag s2 of
        Inl e \<Rightarrow> Inl e
      | Inr (hello_task, s3) \<Rightarrow>
          rshift hello_task goodbye_task s3)))"

text \<open>
  The module body with the two task constructions exchanged: \<open>hello_task\<close> is built
  before \<open>goodbye_task\<close>, and the last statement is the same
  \<^verbatim>\<open>hello_task >> goodbye_task\<close>. This is not the order of the source. It is the load
  that \<open>load\<close> is compared with, to say that the declared ordering does not depend on
  the order in which the tasks are constructed.
\<close>

definition load_hello_first :: "datetime \<Rightarrow> framework_error + 'w objects" where
  "load_hello_first now =
     (case new_DAG ''greeting_dag'' now no_objects of
        Inl e \<Rightarrow> Inl e
      | Inr (greeting_dag, s1) \<Rightarrow>
     (case new_PythonOperator ''hello_task'' hello greeting_dag s1 of
        Inl e \<Rightarrow> Inl e
      | Inr (hello_task, s2) \<Rightarrow>
     (case new_PythonOperator ''goodbye_task'' goodbye greeting_dag s2 of
        Inl e \<Rightarrow> Inl e
      | Inr (goodbye_task, s3) \<Rightarrow>
          rshift hello_task goodbye_task s3)))"

subsection \<open>Executions of a workflow\<close>

text \<open>
  Modelled from the spec: an execution of a workflow by the orchestrator, which owns
  scheduling and is not part of the repository. An execution is the sequence of its
  events: a task begins, a task completes.
\<close>

datatype event = Begins string | Completes string

text \<open>The tasks that \<open>t\<close> runs after: the sources of the edges into \<open>t\<close>.\<close>

definition upstream :: "'w DAG \<Rightarrow> string \<Rightarrow> string list" where
  "upstream g t = map fst (filter (\<lambda>e. snd e = t) (edges g))"

text \<open>
  Modelled from the spec: an execution is valid when it follows the declared ordering.
  A task of the workflow begins at most once, and only when every task it runs after
  has completed; a task completes at most once, and only after it has begun. \<open>begun\<close>
  and \<open>finished\<close> are the tasks that have begun and completed so far.
\<close>

fun valid_from :: "'w DAG \<Rightarrow> string list \<Rightarrow> string list \<Rightarrow> event list \<Rightarrow> bool" where
  "valid_from g begun finished [] = True"
| "valid_from g begun finished (Begins t # evs) =
     (t \<in> set (map task_id (tasks g)) \<and> t \<notin> set begun \<and>
      list_all (\<lambda>u. u \<in> set finished) (upstream g t) \<and>
      valid_from g (t # begun) finished evs)"
| "valid_from g begun finished (Completes t # evs) =
     (t \<in> set begun \<and> t \<notin> set finished \<and> valid_from g begun (t # finished) evs)"

definition valid_execution :: "'w DAG \<Rightarrow> event list \<Rightarrow> bool" where
  "valid_execution g evs = valid_from g [] [] evs"

section \<open>Properties\<close>

subsection \<open>The result of a load\<close>

text \<open>
  Whatever the clock reads, the load raises nothing: the two task names differ, the
  workflow exists when the tasks are built, and the one edge closes no cycle. It leaves
  one workflow with two tasks and one edge, and four calls received by the framework.
\<close>

lemma load_result:
  "load now = Inr
     \<lparr>workflows =
        [\<lparr>dag_id = ''greeting_dag'', start_date = now,
          tasks = [\<lparr>task_id = ''goodbye_task'', python_callable = goodbye, dag = ''greeting_dag''\<rparr>,
                   \<lparr>task_id = ''hello_task'', python_callable = hello, dag = ''greeting_dag''\<rparr>],
          edges = [(''hello_task'', ''goodbye_task'')]\<rparr>],
      calls =
        [Call_DAG ''greeting_dag'' now,
         Call_PythonOperator ''goodbye_task'' goodbye ''greeting_dag'',
         Call_PythonOperator ''hello_task'' hello ''greeting_dag'',
         Call_rshift ''hello_task'' ''goodbye_task'']\<rparr>"
  by (simp add: load_def new_DAG_def new_PythonOperator_def rshift_def record_call_def
      no_objects_def find_dag_def update_dag_def Let_def)

subsection \<open>The callables\<close>

text \<open>
  C1: invoking \<open>hello\<close>, which takes no argument, returns exactly the string
  \<open>Hello world!\<close>, in every world it is invoked in.
\<close>

theorem hello_returns: "fst (hello w) = ''Hello world!''"
  by (simp add: hello_def)

text \<open>
  C2: invoking \<open>goodbye\<close>, which takes no argument, returns exactly the string
  \<open>goodbye everyone\<close>, in every world it is invoked in.
\<close>

theorem goodbye_returns: "fst (goodbye w) = ''goodbye everyone''"
  by (simp add: goodbye_def)

text \<open>
  Each callable gives back the world as it was (no output, no change of any object) and
  returns its fixed string literal; so any two invocations of the same callable, in
  whatever worlds, return the same value.
\<close>

lemma callables_fixed_and_effect_free:
  "hello w = (''Hello world!'', w) \<and> goodbye w = (''goodbye everyone'', w) \<and>
   fst (hello w1) = fst (hello w2) \<and> fst (goodbye w1) = fst (goodbye w2)"
  by (simp add: hello_def goodbye_def)

subsection \<open>The declared ordering\<close>

lemma upstream_edge: "(u, d) \<in> set (edges g) \<Longrightarrow> u \<in> set (upstream g d)"
  by (force simp: upstream_def)

text \<open>
  In a valid execution, when the target of an edge begins, the source of the edge has
  completed: either before the part of the execution that is looked at, or at an earlier
  position of it.
\<close>

lemma valid_from_edge:
  "valid_from g begun finished evs \<Longrightarrow> (u, d) \<in> set (edges g) \<Longrightarrow>
   i < length evs \<Longrightarrow> evs ! i = Begins d \<Longrightarrow>
   u \<in> set finished \<or> (\<exists>j<i. evs ! j = Completes u)"
proof (induction g begun finished evs arbitrary: i rule: valid_from.induct)
  case (1 g begun finished)
  then show ?case by simp
next
  case (2 g begun finished t evs)
  show ?case
  proof (cases i)
    case 0
    with 2 have "t = d" by simp
    with 2 have "list_all (\<lambda>u. u \<in> set finished) (upstream g d)" by simp
    with upstream_edge [OF "2.prems"(2)] show ?thesis by (simp add: list_all_iff)
  next
    case (Suc k)
    with 2 have "u \<in> set finished \<or> (\<exists>j<k. evs ! j = Completes u)" by simp
    then show ?thesis using Suc by auto
  qed
next
  case (3 g begun finished t evs)
  show ?case
  proof (cases i)
    case 0
    with 3 show ?thesis by simp
  next
    case (Suc k)
    with 3 have "u \<in> set (t # finished) \<or> (\<exists>j<k. evs ! j = Completes u)" by simp
    then show ?thesis using Suc by auto
  qed
qed

text \<open>An execution in which \<open>goodbye_task\<close> begins first is not valid: the edge forbids it.\<close>

lemma goodbye_first_not_valid:
  "\<exists>s g. (load now :: framework_error + 'w objects) = Inr s \<and> workflows s = [g] \<and>
     \<not> valid_execution g (Begins ''goodbye_task'' # evs)"
  by (simp add: load_result valid_execution_def upstream_def)

text \<open>
  C3: the loaded workflow has exactly one ordering edge, from \<open>hello_task\<close> to
  \<open>goodbye_task\<close>, and in every valid execution of it, wherever \<open>goodbye_task\<close>
  begins, \<open>hello_task\<close> has completed at an earlier position.
\<close>

theorem hello_completes_before_goodbye_begins:
  "\<exists>s g. (load now :: framework_error + 'w objects) = Inr s \<and> workflows s = [g] \<and>
     edges g = [(''hello_task'', ''goodbye_task'')] \<and>
     (\<forall>evs i. valid_execution g evs \<longrightarrow> i < length evs \<longrightarrow>
        evs ! i = Begins ''goodbye_task'' \<longrightarrow>
        (\<exists>j<i. evs ! j = Completes ''hello_task''))"
proof -
  let ?g = "\<lparr>dag_id = ''greeting_dag'', start_date = now,
          tasks = [\<lparr>task_id = ''goodbye_task'', python_callable = goodbye :: 'w callable,
                     dag = ''greeting_dag''\<rparr>,
                   \<lparr>task_id = ''hello_task'', python_callable = hello, dag = ''greeting_dag''\<rparr>],
          edges = [(''hello_task'', ''goodbye_task'')]\<rparr>"
  have "\<exists>j<i. evs ! j = Completes ''hello_task''"
    if "valid_execution ?g evs" "i < length evs" "evs ! i = Begins ''goodbye_task''" for evs i
    using valid_from_edge [of ?g "[]" "[]" evs "''hello_task''" "''goodbye_task''" i] that
    by (simp add: valid_execution_def)
  then show ?thesis
    by (auto simp: load_result)
qed

theorem hello_completes_before_goodbye_begins_witness:
  "\<exists>s g. (load 0 :: framework_error + unit objects) = Inr s \<and> workflows s = [g] \<and>
     valid_execution g [Begins ''hello_task'', Completes ''hello_task'',
                        Begins ''goodbye_task'', Completes ''goodbye_task''] \<and>
     [Begins ''hello_task'', Completes ''hello_task'',
      Begins ''goodbye_task'', Completes ''goodbye_task''] ! 2 = Begins ''goodbye_task'' \<and>
     (\<exists>j<2. [Begins ''hello_task'', Completes ''hello_task'',
      Begins ''goodbye_task'', Completes ''goodbye_task''] ! j = Completes ''hello_task'')"
proof -
  let ?evs = "[Begins ''hello_task'', Completes ''hello_task'',
               Begins ''goodbye_task'', Completes ''goodbye_task'']"
  from hello_completes_before_goodbye_begins [of 0]
  obtain s :: "unit objects" and g where
    s: "load 0 = Inr s" "workflows s = [g]" and
    ord: "\<And>evs i. valid_execution g evs \<Longrightarrow> i < length evs \<Longrightarrow>
        evs ! i = Begins ''goodbye_task'' \<Longrightarrow> \<exists>j<i. evs ! j = Completes ''hello_task''"
    by blast
  from s have v: "valid_execution g ?evs"
    by (auto simp: load_result valid_execution_def upstream_def)
  from ord [OF v, of 2] have "\<exists>j<2. ?evs ! j = Completes ''hello_task''" by simp
  with s v show ?thesis by simp
qed

text \<open>
  The operator adds the edge from its left operand to its right operand, whatever the
  order of the tasks in the workflow: the direction is fixed by the operands alone.
\<close>

lemma rshift_edge_by_operands:
  "rshift up down s = Inr s' \<Longrightarrow>
   workflows s' =
     map (\<lambda>g. if dag_id g = dag up
                then g\<lparr>edges := edges g @ [(task_id up, task_id down)]\<rparr> else g)
       (workflows s)"
  by (auto simp: rshift_def record_call_def update_dag_def Let_def
      split: if_splits option.splits)

lemma load_hello_first_result:
  "load_hello_first now = Inr
     \<lparr>workflows =
        [\<lparr>dag_id = ''greeting_dag'', start_date = now,
          tasks = [\<lparr>task_id = ''hello_task'', python_callable = hello, dag = ''greeting_dag''\<rparr>,
                   \<lparr>task_id = ''goodbye_task'', python_callable = goodbye, dag = ''greeting_dag''\<rparr>],
          edges = [(''hello_task'', ''goodbye_task'')]\<rparr>],
      calls =
        [Call_DAG ''greeting_dag'' now,
         Call_PythonOperator ''hello_task'' hello ''greeting_dag'',
         Call_PythonOperator ''goodbye_task'' goodbye ''greeting_dag'',
         Call_rshift ''hello_task'' ''goodbye_task'']\<rparr>"
  by (simp add: load_hello_first_def new_DAG_def new_PythonOperator_def rshift_def
      record_call_def no_objects_def find_dag_def update_dag_def Let_def)

text \<open>
  C10: the declared ordering does not depend on the order in which the tasks are
  constructed. In the load of the source \<open>goodbye_task\<close> is constructed before
  \<open>hello_task\<close> (the framework receives the constructor calls in that order, and the
  workflow lists its tasks in that order); in the load with the two constructions
  exchanged \<open>hello_task\<close> is constructed first. Both loads give the same ordering
  graph: exactly one edge, with \<open>hello_task\<close> upstream of \<open>goodbye_task\<close>, and no
  edge in the other direction.
\<close>

theorem edge_independent_of_construction_order:
  "\<exists>s g s' g'. (load now :: framework_error + 'w objects) = Inr s \<and> workflows s = [g] \<and>
     (load_hello_first now :: framework_error + 'w objects) = Inr s' \<and> workflows s' = [g'] \<and>
     map task_id (tasks g) = [''goodbye_task'', ''hello_task''] \<and>
     map task_id (tasks g') = [''hello_task'', ''goodbye_task''] \<and>
     take 3 (calls s) =
       [Call_DAG ''greeting_dag'' now,
        Call_PythonOperator ''goodbye_task'' goodbye ''greeting_dag'',
        Call_PythonOperator ''hello_task'' hello ''greeting_dag''] \<and>
     take 3 (calls s') =
       [Call_DAG ''greeting_dag'' now,
        Call_PythonOperator ''hello_task'' hello ''greeting_dag'',
        Call_PythonOperator ''goodbye_task'' goodbye ''greeting_dag''] \<and>
     edges g = [(''hello_task'', ''goodbye_task'')] \<and>
     edges g' = edges g \<and>
     length (edges g) = 1 \<and>
     (''goodbye_task'', ''hello_task'') \<notin> set (edges g) \<and>
     (''goodbye_task'', ''hello_task'') \<notin> set (edges g')"
  by (simp add: load_result load_hello_first_result)

subsection \<open>The workflow and its tasks\<close>

text \<open>
  C5: in the workflow \<open>greeting_dag\<close> the two task names, \<open>hello_task\<close> and
  \<open>goodbye_task\<close>, are distinct, so the task names of the workflow are unique, and the
  ordering graph has no cycle.
\<close>

theorem task_names_distinct_and_acyclic:
  "\<exists>s g. (load now :: framework_error + 'w objects) = Inr s \<and> workflows s = [g] \<and>
     dag_id g = ''greeting_dag'' \<and>
     map task_id (tasks g) = [''goodbye_task'', ''hello_task''] \<and>
     ''hello_task'' \<noteq> ''goodbye_task'' \<and>
     distinct (map task_id (tasks g)) \<and>
     acyclic (set (edges g))"
  by (simp add: load_result wf_acyclic)

text \<open>
  C6: the load builds one workflow, \<open>greeting_dag\<close>, and the tasks of all workflows
  together are two: \<open>goodbye_task\<close>, which wraps \<open>goodbye\<close>, and \<open>hello_task\<close>,
  which wraps \<open>hello\<close>, each with \<open>greeting_dag\<close> as its one owning workflow.
\<close>

theorem tasks_wrap_one_callable_in_one_workflow:
  "\<exists>s. (load now :: framework_error + 'w objects) = Inr s \<and>
     map dag_id (workflows s) = [''greeting_dag''] \<and>
     concat (map tasks (workflows s)) =
       [\<lparr>task_id = ''goodbye_task'', python_callable = goodbye, dag = ''greeting_dag''\<rparr>,
        \<lparr>task_id = ''hello_task'', python_callable = hello, dag = ''greeting_dag''\<rparr>]"
  by (simp add: load_result)

text \<open>
  C7: in one load the workflow constructor and each of the two task constructors are
  called exactly once, the addition of the edge is the last of the four calls, and
  invoking \<open>hello\<close> or \<open>goodbye\<close> on the objects of the load gives them back
  unchanged: the workflow keeps its name, its start timestamp, its tasks and its edge.
\<close>

theorem constructed_once_and_left_unchanged:
  "\<exists>s g. (load now :: framework_error + 'w objects) = Inr s \<and>
     count_list (calls s) (Call_DAG ''greeting_dag'' now) = 1 \<and>
     count_list (calls s) (Call_PythonOperator ''goodbye_task'' goodbye ''greeting_dag'') = 1 \<and>
     count_list (calls s) (Call_PythonOperator ''hello_task'' hello ''greeting_dag'') = 1 \<and>
     length (calls s) = 4 \<and>
     last (calls s) = Call_rshift ''hello_task'' ''goodbye_task'' \<and>
     workflows s = [g] \<and> length (tasks g) = 2 \<and>
     snd (hello s) = s \<and> snd (goodbye s) = s \<and>
     workflows (snd (hello s)) = [g] \<and> workflows (snd (goodbye s)) = [g] \<and>
     dag_id g = ''greeting_dag'' \<and> start_date g = now \<and>
     map task_id (tasks g) = [''goodbye_task'', ''hello_task''] \<and>
     edges g = [(''hello_task'', ''goodbye_task'')]"
  by (simp add: load_result hello_def goodbye_def)

text \<open>
  C8: the calls that the framework receives from a load are, in order: the workflow
  constructor with the name \<open>greeting_dag\<close> and the start time; the task constructor
  with a name, a callable without arguments and the owning workflow, twice; and the
  ordering operator. The load takes nothing but the clock and yields nothing but these
  objects.
\<close>

theorem registration_calls:
  "\<exists>s. (load now :: framework_error + 'w objects) = Inr s \<and>
     calls s =
       [Call_DAG ''greeting_dag'' now,
        Call_PythonOperator ''goodbye_task'' goodbye ''greeting_dag'',
        Call_PythonOperator ''hello_task'' hello ''greeting_dag'',
        Call_rshift ''hello_task'' ''goodbye_task'']"
  by (simp add: load_result)

text \<open>
  C9: the start timestamp of the workflow is the reading of the clock at the load; two
  loads at different readings give workflows with different start timestamps, and no
  constant is the start timestamp of every load.
\<close>

theorem start_date_is_load_time:
  "(\<exists>s. (load now :: framework_error + 'w objects) = Inr s \<and>
        map start_date (workflows s) = [now]) \<and>
   (\<exists>t1 t2 s1 s2. (load t1 :: framework_error + 'w objects) = Inr s1 \<and>
        (load t2 :: framework_error + 'w objects) = Inr s2 \<and>
        map start_date (workflows s1) \<noteq> map start_date (workflows s2)) \<and>
   \<not> (\<exists>c. \<forall>t. \<exists>s. (load t :: framework_error + 'w objects) = Inr s \<and>
        map start_date (workflows s) = [c])"
proof (intro conjI)
  show "\<exists>s. (load now :: framework_error + 'w objects) = Inr s \<and>
        map start_date (workflows s) = [now]"
    by (simp add: load_result)
  have "(load 0 :: framework_error + 'w objects) = Inr s1 \<and> load 1 = Inr s2 \<and>
        map start_date (workflows s1) \<noteq> map start_date (workflows s2)"
    if "s1 = projr (load 0)" "s2 = projr (load 1)" for s1 s2 :: "'w objects"
    using that by (simp add: load_result)
  then show "\<exists>t1 t2 s1 s2. (load t1 :: framework_error + 'w objects) = Inr s1 \<and>
        (load t2 :: framework_error + 'w objects) = Inr s2 \<and>
        map start_date (workflows s1) \<noteq> map start_date (workflows s2)"
    by blast
  show "\<not> (\<exists>c. \<forall>t. \<exists>s. (load t :: framework_error + 'w objects) = Inr s \<and>
        map start_date (workflows s) = [c])"
  proof
    assume "\<exists>c. \<forall>t. \<exists>s. (load t :: framework_error + 'w objects) = Inr s \<and>
        map start_date (workflows s) = [c]"
    then obtain c where c: "\<And>t. \<exists>s. (load t :: framework_error + 'w objects) = Inr s \<and>
        map start_date (workflows s) = [c]" by blast
    from c [of 0] c [of 1] show False by (simp add: load_result)
  qed
qed

end
